theory Spec2Isabelle
  imports Main "HOL-Library.Word"
begin

section \<open>The todo list component of src/todo_frontend/src/App.js\<close>

text \<open>
  The component \<^verbatim>\<open>App\<close> holds four React state variables and a handful of event
  handlers that replace them. The embedding below passes the state explicitly: every
  handler is a function from the state before the event to the state after it. React
  renders again after each event, so the values a handler closes over (\<^verbatim>\<open>todos\<close>,
  \<^verbatim>\<open>input\<close>, \<^verbatim>\<open>editId\<close>, \<^verbatim>\<open>editValue\<close>) are the current state when the handler runs.
  \<^verbatim>\<open>e.preventDefault()\<close> and the focus call on \<^verbatim>\<open>inputRef\<close> touch the page only and
  are left out.
\<close>

subsection \<open>JavaScript strings and \<^verbatim>\<open>String.prototype.trim\<close>\<close>

text \<open>
  A JavaScript string is a sequence of 16-bit UTF-16 code units, and \<^verbatim>\<open>length\<close> and the
  \<^verbatim>\<open>maxLength\<close> attribute count code units.
\<close>

type_synonym code_unit = "16 word"
type_synonym jsstring = "code_unit list"

text \<open>
  \<^verbatim>\<open>trim\<close> removes ECMAScript white space and line terminators from both ends: TAB, LF,
  VT, FF, CR, SP, NBSP, U+1680, U+2000 to U+200A, LS, PS, U+202F, U+205F, U+3000 and
  U+FEFF.
\<close>

definition is_white_space :: "code_unit \<Rightarrow> bool" where
  "is_white_space c \<longleftrightarrow>
     c = 0x0009 \<or> c = 0x000A \<or> c = 0x000B \<or> c = 0x000C \<or> c = 0x000D \<or> c = 0x0020 \<or>
     c = 0x00A0 \<or> c = 0x1680 \<or> (0x2000 \<le> c \<and> c \<le> 0x200A) \<or> c = 0x2028 \<or>
     c = 0x2029 \<or> c = 0x202F \<or> c = 0x205F \<or> c = 0x3000 \<or> c = 0xFEFF"

definition trim :: "jsstring \<Rightarrow> jsstring" where
  "trim s = rev (dropWhile is_white_space (rev (dropWhile is_white_space s)))"

text \<open>A string literal of the source, its ASCII characters as code units.\<close>

definition js :: "string \<Rightarrow> jsstring" where
  "js s = map (\<lambda>c. word_of_nat (of_char c)) s"

subsection \<open>The data model\<close>

text \<open>
  A todo is the object literal \<^verbatim>\<open>{ id, title, completed }\<close> built by \<^verbatim>\<open>handleAddTodo\<close>;
  its \<^verbatim>\<open>id\<close> is a value of \<^verbatim>\<open>Date.now()\<close>, an integer number of milliseconds.
\<close>

record todo =
  id_todo :: int
  title :: jsstring
  completed :: bool

text \<open>
  The state of the component: \<^verbatim>\<open>useState([])\<close>, \<^verbatim>\<open>useState('')\<close>, \<^verbatim>\<open>useState(null)\<close>
  and \<^verbatim>\<open>useState('')\<close>. \<^verbatim>\<open>editId\<close> is \<^verbatim>\<open>null\<close> or the id of the todo being edited.
\<close>

record app_state =
  todos :: "todo list"
  input :: jsstring
  editId :: "int option"
  editValue :: jsstring

definition initial_state :: app_state where
  "initial_state = \<lparr>todos = [], input = [], editId = None, editValue = []\<rparr>"

subsection \<open>The event handlers\<close>

text \<open>
  \<^verbatim>\<open>handleAddTodo\<close>: the first argument is the value \<^verbatim>\<open>Date.now()\<close> returns during the
  call. \<^verbatim>\<open>!title\<close> holds of the empty string only.
\<close>

definition handleAddTodo :: "int \<Rightarrow> app_state \<Rightarrow> app_state" where
  "handleAddTodo now st =
     (let t = trim (input st) in
      if t = [] then st
      else st\<lparr>todos := todos st @ [\<lparr>id_todo = now, title = t, completed = False\<rparr>],
              input := []\<rparr>)"

definition toggleTodo :: "int \<Rightarrow> app_state \<Rightarrow> app_state" where
  "toggleTodo i st =
     st\<lparr>todos := map (\<lambda>td. if id_todo td = i then td\<lparr>completed := \<not> completed td\<rparr> else td)
                       (todos st)\<rparr>"

definition startEdit :: "int \<Rightarrow> jsstring \<Rightarrow> app_state \<Rightarrow> app_state" where
  "startEdit i t st = st\<lparr>editId := Some i, editValue := t\<rparr>"

text \<open>
  \<^verbatim>\<open>handleEditSave\<close>: \<^verbatim>\<open>todo.id === editId\<close> is false for every todo while \<^verbatim>\<open>editId\<close> is
  \<^verbatim>\<open>null\<close>.
\<close>

definition handleEditSave :: "app_state \<Rightarrow> app_state" where
  "handleEditSave st =
     (let newTitle = trim (editValue st) in
      if newTitle = [] then st
      else st\<lparr>todos := map (\<lambda>td. if Some (id_todo td) = editId st
                                  then td\<lparr>title := newTitle\<rparr> else td) (todos st),
              editId := None,
              editValue := []\<rparr>)"

definition cancelEdit :: "app_state \<Rightarrow> app_state" where
  "cancelEdit st = st\<lparr>editId := None, editValue := []\<rparr>"

definition deleteTodo :: "int \<Rightarrow> app_state \<Rightarrow> app_state" where
  "deleteTodo i st = st\<lparr>todos := filter (\<lambda>td. id_todo td \<noteq> i) (todos st)\<rparr>"

text \<open>
  The two \<^verbatim>\<open>onChange\<close> handlers of the text fields, \<^verbatim>\<open>e => setInput(e.target.value)\<close> and
  \<^verbatim>\<open>e => setEditValue(e.target.value)\<close>.
\<close>

definition changeInput :: "jsstring \<Rightarrow> app_state \<Rightarrow> app_state" where
  "changeInput v st = st\<lparr>input := v\<rparr>"

definition changeEditValue :: "jsstring \<Rightarrow> app_state \<Rightarrow> app_state" where
  "changeEditValue v st = st\<lparr>editValue := v\<rparr>"

subsection \<open>The four store operations\<close>

text \<open>
  The operations \<^verbatim>\<open>add(rawTitle)\<close> and \<^verbatim>\<open>edit(id, rawNewTitle)\<close> are form submissions:
  the text is what the field's \<^verbatim>\<open>onChange\<close> handler stored, and for \<^verbatim>\<open>edit\<close> the id is
  the one \<^verbatim>\<open>startEdit\<close> stored. \<^verbatim>\<open>toggle\<close> and \<^verbatim>\<open>delete\<close> are \<^verbatim>\<open>toggleTodo\<close> and
  \<^verbatim>\<open>deleteTodo\<close>.
\<close>

definition add :: "int \<Rightarrow> jsstring \<Rightarrow> app_state \<Rightarrow> app_state" where
  "add now raw st = handleAddTodo now (changeInput raw st)"

definition edit :: "int \<Rightarrow> jsstring \<Rightarrow> app_state \<Rightarrow> app_state" where
  "edit i raw st = handleEditSave (st\<lparr>editId := Some i, editValue := raw\<rparr>)"

text \<open>A run of \<^verbatim>\<open>add\<close> calls, each with its clock value and its raw text.\<close>

definition add_calls :: "(int \<times> jsstring) list \<Rightarrow> app_state \<Rightarrow> app_state" where
  "add_calls calls st = fold (\<lambda>c. add (fst c) (snd c)) calls st"

text \<open>The todo that a successful \<^verbatim>\<open>add\<close> call builds.\<close>

definition new_todo :: "int \<times> jsstring \<Rightarrow> todo" where
  "new_todo c = \<lparr>id_todo = fst c, title = trim (snd c), completed = False\<rparr>"

text \<open>A run of store operations.\<close>

datatype operation =
  Add int jsstring
  | Toggle int
  | Edit int jsstring
  | Delete int

fun apply_operation :: "operation \<Rightarrow> app_state \<Rightarrow> app_state" where
  "apply_operation (Add now raw) st = add now raw st"
| "apply_operation (Toggle i) st = toggleTodo i st"
| "apply_operation (Edit i raw) st = edit i raw st"
| "apply_operation (Delete i) st = deleteTodo i st"

definition run :: "operation list \<Rightarrow> app_state \<Rightarrow> app_state" where
  "run ops st = fold apply_operation ops st"


section \<open>Properties\<close>

subsection \<open>Auxiliary facts\<close>


lemma startEdit_then_change:
  "changeEditValue raw (startEdit i t st) = st\<lparr>editId := Some i, editValue := raw\<rparr>"
  by (simp add: changeEditValue_def startEdit_def)

lemma map_other_ids:
  "\<forall>y \<in> set ys. id_todo y \<noteq> i \<Longrightarrow> map (\<lambda>td. if id_todo td = i then f td else td) ys = ys"
  by (induction ys) simp_all

lemma filter_other_ids:
  "\<forall>y \<in> set ys. id_todo y \<noteq> i \<Longrightarrow> filter (\<lambda>td. id_todo td \<noteq> i) ys = ys"
  by (induction ys) simp_all

lemma todos_add:
  "todos (add now raw st) =
     (if trim raw = [] then todos st else todos st @ [new_todo (now, raw)])"
  by (simp add: add_def handleAddTodo_def changeInput_def new_todo_def Let_def)

lemma todos_edit:
  "todos (edit i raw st) =
     (if trim raw = [] then todos st
      else map (\<lambda>td. if id_todo td = i then td\<lparr>title := trim raw\<rparr> else td) (todos st))"
  by (simp add: edit_def handleEditSave_def Let_def)

lemma todos_add_calls:
  "\<forall>c \<in> set calls. trim (snd c) \<noteq> [] \<Longrightarrow>
     todos (add_calls calls st) = todos st @ map new_todo calls"
proof (induction calls arbitrary: st)
  case Nil
  show ?case by (simp add: add_calls_def)
next
  case (Cons c calls)
  have step: "todos (add (fst c) (snd c) st) = todos st @ [new_todo c]"
    using Cons.prems by (simp add: todos_add)
  have "todos (add_calls (c # calls) st) = todos (add_calls calls (add (fst c) (snd c) st))"
    by (simp add: add_calls_def)
  also have "\<dots> = todos (add (fst c) (snd c) st) @ map new_todo calls"
    using Cons.prems by (intro Cons.IH) simp
  finally show ?case by (simp add: step)
qed

subsection \<open>Adding\<close>

text \<open>
  C1. When the trimmed text of the add field is not empty, \<^verbatim>\<open>handleAddTodo\<close> appends
  exactly one todo at the end of the list: its id is the clock value read during the call,
  its title is the trimmed text and it is not completed. Hence a run of \<^verbatim>\<open>add\<close> calls
  with non-empty trimmed titles, started in the empty store, leaves as many todos as there
  were calls, one per call and in call order.
\<close>

theorem add_appends_one_todo:
  "(trim (input st) \<noteq> [] \<longrightarrow>
      todos (handleAddTodo now st) =
        todos st @ [\<lparr>id_todo = now, title = trim (input st), completed = False\<rparr>]) \<and>
   ((\<forall>c \<in> set calls. trim (snd c) \<noteq> []) \<longrightarrow>
      length (todos (add_calls calls initial_state)) = length calls \<and>
      map title (todos (add_calls calls initial_state)) = map (\<lambda>c. trim (snd c)) calls \<and>
      todos (add_calls calls initial_state) = map new_todo calls)"
proof (intro conjI impI)
  assume "trim (input st) \<noteq> []"
  then show "todos (handleAddTodo now st) =
      todos st @ [\<lparr>id_todo = now, title = trim (input st), completed = False\<rparr>]"
    by (simp add: handleAddTodo_def Let_def)
next
  assume ne: "\<forall>c \<in> set calls. trim (snd c) \<noteq> []"
  have all: "todos (add_calls calls initial_state) = map new_todo calls"
    using todos_add_calls [OF ne, of initial_state] by (simp add: initial_state_def)
  show "todos (add_calls calls initial_state) = map new_todo calls"
    by (rule all)
  show "length (todos (add_calls calls initial_state)) = length calls"
    by (simp add: all)
  show "map title (todos (add_calls calls initial_state)) = map (\<lambda>c. trim (snd c)) calls"
    by (simp add: all new_todo_def)
qed

theorem add_appends_one_todo_witness:
  "todos (handleAddTodo 7 \<lparr>todos = [], input = js '' Buy milk '', editId = None, editValue = []\<rparr>) =
     [\<lparr>id_todo = 7, title = js ''Buy milk'', completed = False\<rparr>] \<and>
   map title (todos (add_calls [(7, js ''Buy milk''), (9, js '' Walk dog'')] initial_state)) =
     [js ''Buy milk'', js ''Walk dog''] \<and>
   length (todos (add_calls [(7, js ''Buy milk''), (9, js '' Walk dog'')] initial_state)) = 2"
  using add_appends_one_todo
    [of "\<lparr>todos = [], input = js '' Buy milk '', editId = None, editValue = []\<rparr>" 7
        "[(7, js ''Buy milk''), (9, js '' Walk dog'')]"]
  by (simp add: trim_def js_def is_white_space_def new_todo_def)

subsection \<open>Toggling, editing and deleting a todo whose id no other record has\<close>

text \<open>
  Let \<open>X\<close> be a stored todo and let no other record of the store have its id.
  \<^verbatim>\<open>toggleTodo\<close> called with the id of \<open>X\<close> then negates the \<^verbatim>\<open>completed\<close> flag of \<open>X\<close> and
  changes nothing else.
\<close>

lemma toggleTodo_unshared_id:
  assumes "todos st = pre @ X # post"
    and "\<forall>y \<in> set (pre @ post). id_todo y \<noteq> id_todo X"
  shows "toggleTodo (id_todo X) st =
           st\<lparr>todos := pre @ X\<lparr>completed := \<not> completed X\<rparr> # post\<rparr>"
proof -
  let ?f = "\<lambda>td. if id_todo td = id_todo X then td\<lparr>completed := \<not> completed td\<rparr> else td"
  have pre: "map ?f pre = pre"
    using assms(2) by (intro map_other_ids) simp
  have post: "map ?f post = post"
    using assms(2) by (intro map_other_ids) simp
  have "map ?f (todos st) = pre @ X\<lparr>completed := \<not> completed X\<rparr> # post"
    unfolding assms(1) map_append list.map pre post by simp
  then show ?thesis
    by (simp add: toggleTodo_def)
qed

text \<open>
  Under the same condition \<^verbatim>\<open>edit\<close> with a text whose trimmed form is not empty replaces
  the title of \<open>X\<close> by the trimmed text and changes no other record.
\<close>

lemma edit_unshared_id:
  assumes "todos st = pre @ X # post"
    and "\<forall>y \<in> set (pre @ post). id_todo y \<noteq> id_todo X"
    and "trim raw \<noteq> []"
  shows "todos (edit (id_todo X) raw st) = pre @ X\<lparr>title := trim raw\<rparr> # post"
proof -
  let ?f = "\<lambda>td. if id_todo td = id_todo X then td\<lparr>title := trim raw\<rparr> else td"
  have pre: "map ?f pre = pre"
    using assms(2) by (intro map_other_ids) simp
  have post: "map ?f post = post"
    using assms(2) by (intro map_other_ids) simp
  have "map ?f (todos st) = pre @ X\<lparr>title := trim raw\<rparr> # post"
    unfolding assms(1) map_append list.map pre post by simp
  then show ?thesis
    using assms(3) by (simp add: todos_edit)
qed

text \<open>
  Under the same condition \<^verbatim>\<open>deleteTodo\<close> removes \<open>X\<close> and nothing else.
\<close>

lemma deleteTodo_unshared_id:
  assumes "todos st = pre @ X # post"
    and "\<forall>y \<in> set (pre @ post). id_todo y \<noteq> id_todo X"
  shows "todos (deleteTodo (id_todo X) st) = pre @ post \<and>
         Suc (length (todos (deleteTodo (id_todo X) st))) = length (todos st)"
proof -
  let ?p = "\<lambda>td. id_todo td \<noteq> id_todo X"
  have pre: "filter ?p pre = pre"
    using assms(2) by (intro filter_other_ids) simp
  have post: "filter ?p post = post"
    using assms(2) by (intro filter_other_ids) simp
  have kept: "todos (deleteTodo (id_todo X) st) = pre @ post"
    unfolding deleteTodo_def by (simp add: assms(1) pre post)
  show ?thesis
    unfolding kept assms(1) by simp
qed

subsection \<open>Uniqueness of ids\<close>

text \<open>
  \<^verbatim>\<open>toggleTodo\<close>, \<^verbatim>\<open>edit\<close> and \<^verbatim>\<open>deleteTodo\<close> keep the ids of a store pairwise distinct, and
  so does \<^verbatim>\<open>add\<close> as long as the clock value is not the id of a stored todo.
\<close>

lemma ids_toggleTodo: "map id_todo (todos (toggleTodo i st)) = map id_todo (todos st)"
  by (simp add: toggleTodo_def comp_def if_distrib cong: if_cong)

lemma ids_edit: "map id_todo (todos (edit i raw st)) = map id_todo (todos st)"
  by (simp add: todos_edit comp_def if_distrib cong: if_cong)

lemma ids_deleteTodo:
  "map id_todo (todos (deleteTodo i st)) = filter (\<lambda>j. j \<noteq> i) (map id_todo (todos st))"
  by (simp add: deleteTodo_def filter_map comp_def)

lemma unique_ids_preserved:
  assumes "distinct (map id_todo (todos st))"
  shows "distinct (map id_todo (todos (toggleTodo i st)))"
    and "distinct (map id_todo (todos (edit i raw st)))"
    and "distinct (map id_todo (todos (deleteTodo i st)))"
    and "now \<notin> id_todo ` set (todos st) \<Longrightarrow> distinct (map id_todo (todos (add now raw st)))"
  using assms by (simp_all add: ids_toggleTodo ids_edit ids_deleteTodo todos_add new_todo_def)

text \<open>
  C5. Two \<^verbatim>\<open>add\<close> calls during which \<^verbatim>\<open>Date.now()\<close> returns the same millisecond store
  two todos with the same id: the ids of the store reached from the empty store are not
  pairwise distinct.
\<close>

theorem add_same_clock_value_repeats_id:
  "todos (run [Add 1000 (js ''Buy milk''), Add 1000 (js ''Walk dog'')] initial_state) =
     [\<lparr>id_todo = 1000, title = js ''Buy milk'', completed = False\<rparr>,
      \<lparr>id_todo = 1000, title = js ''Walk dog'', completed = False\<rparr>] \<and>
   \<not> distinct (map id_todo
     (todos (run [Add 1000 (js ''Buy milk''), Add 1000 (js ''Walk dog'')] initial_state)))"
  by (simp add: run_def todos_add new_todo_def initial_state_def trim_def js_def
      is_white_space_def)

subsection \<open>Toggling, editing and deleting after two adds at one clock value\<close>

text \<open>
  The three runs below start in the empty store and add \<^verbatim>\<open>"Buy milk"\<close> and
  \<^verbatim>\<open>"Walk dog"\<close> while \<^verbatim>\<open>Date.now()\<close> returns 1000, then \<^verbatim>\<open>"Call mum"\<close> at 1001. The
  first two todos then share the id 1000, the one handle that \<^verbatim>\<open>toggleTodo\<close>,
  \<^verbatim>\<open>handleEditSave\<close> and \<^verbatim>\<open>deleteTodo\<close> have on a todo.
\<close>

text \<open>
  C2. Toggling the todo \<^verbatim>\<open>"Buy milk"\<close> by its id negates the \<^verbatim>\<open>completed\<close> flag of
  \<^verbatim>\<open>"Buy milk"\<close> and also that of \<^verbatim>\<open>"Walk dog"\<close>: a record other than the toggled one
  changes.
\<close>

theorem toggle_after_same_clock_adds_flips_two:
  "todos (run [Add 1000 (js ''Buy milk''), Add 1000 (js ''Walk dog''),
               Add 1001 (js ''Call mum''), Toggle 1000] initial_state) =
     [\<lparr>id_todo = 1000, title = js ''Buy milk'', completed = True\<rparr>,
      \<lparr>id_todo = 1000, title = js ''Walk dog'', completed = True\<rparr>,
      \<lparr>id_todo = 1001, title = js ''Call mum'', completed = False\<rparr>]"
  by (simp add: run_def toggleTodo_def todos_add new_todo_def initial_state_def trim_def
      js_def is_white_space_def)

text \<open>
  C3. Editing the todo \<^verbatim>\<open>"Buy milk"\<close> by its id with the text \<^verbatim>\<open>"  New  "\<close> sets the
  title of \<^verbatim>\<open>"Buy milk"\<close> to \<^verbatim>\<open>"New"\<close> and also that of \<^verbatim>\<open>"Walk dog"\<close>: a record other
  than the edited one changes.
\<close>

theorem edit_after_same_clock_adds_retitles_two:
  "todos (run [Add 1000 (js ''Buy milk''), Add 1000 (js ''Walk dog''),
               Add 1001 (js ''Call mum''), Edit 1000 (js ''  New  '')] initial_state) =
     [\<lparr>id_todo = 1000, title = js ''New'', completed = False\<rparr>,
      \<lparr>id_todo = 1000, title = js ''New'', completed = False\<rparr>,
      \<lparr>id_todo = 1001, title = js ''Call mum'', completed = False\<rparr>]"
  by (simp add: run_def todos_edit todos_add new_todo_def initial_state_def trim_def
      js_def is_white_space_def)

text \<open>
  C4. Deleting the todo \<^verbatim>\<open>"Buy milk"\<close> by its id removes \<^verbatim>\<open>"Buy milk"\<close> and also
  \<^verbatim>\<open>"Walk dog"\<close>: the store goes from three records to one.
\<close>

theorem delete_after_same_clock_adds_removes_two:
  "length (todos (run [Add 1000 (js ''Buy milk''), Add 1000 (js ''Walk dog''),
                       Add 1001 (js ''Call mum'')] initial_state)) = 3 \<and>
   todos (run [Add 1000 (js ''Buy milk''), Add 1000 (js ''Walk dog''),
               Add 1001 (js ''Call mum''), Delete 1000] initial_state) =
     [\<lparr>id_todo = 1001, title = js ''Call mum'', completed = False\<rparr>]"
  by (simp add: run_def deleteTodo_def todos_add new_todo_def initial_state_def trim_def
      js_def is_white_space_def)

subsection \<open>The edit session\<close>

text \<open>
  C6, as the code has it. In an edit session on the todo with id \<open>i\<close>, a save whose
  trimmed text is not empty writes the trimmed text into the title of the todo with id
  \<open>i\<close> and ends the session: \<^verbatim>\<open>editId\<close> is \<^verbatim>\<open>null\<close> and \<^verbatim>\<open>editValue\<close> is empty. A save
  whose trimmed text is empty changes nothing: the session stays open on the same todo with
  the same text.
\<close>

theorem save_ends_session_unless_blank:
  assumes "editId st = Some i"
  shows "(trim (editValue st) \<noteq> [] \<longrightarrow>
            handleEditSave st =
              st\<lparr>todos := map (\<lambda>td. if id_todo td = i then td\<lparr>title := trim (editValue st)\<rparr>
                                     else td) (todos st),
                 editId := None, editValue := []\<rparr>) \<and>
         (trim (editValue st) = [] \<longrightarrow> handleEditSave st = st)"
  using assms by (simp add: handleEditSave_def Let_def)

theorem save_ends_session_unless_blank_witness:
  "handleEditSave
     \<lparr>todos = [\<lparr>id_todo = 1, title = js ''a'', completed = False\<rparr>],
      input = [], editId = Some 1, editValue = js '' b ''\<rparr> =
     \<lparr>todos = [\<lparr>id_todo = 1, title = js ''b'', completed = False\<rparr>],
      input = [], editId = None, editValue = []\<rparr> \<and>
   handleEditSave
     \<lparr>todos = [\<lparr>id_todo = 1, title = js ''a'', completed = False\<rparr>],
      input = [], editId = Some 1, editValue = js ''  ''\<rparr> =
     \<lparr>todos = [\<lparr>id_todo = 1, title = js ''a'', completed = False\<rparr>],
      input = [], editId = Some 1, editValue = js ''  ''\<rparr>"
  using save_ends_session_unless_blank
    [of "\<lparr>todos = [\<lparr>id_todo = 1, title = js ''a'', completed = False\<rparr>],
          input = [], editId = Some 1, editValue = js '' b ''\<rparr>" 1]
    save_ends_session_unless_blank
    [of "\<lparr>todos = [\<lparr>id_todo = 1, title = js ''a'', completed = False\<rparr>],
          input = [], editId = Some 1, editValue = js ''  ''\<rparr>" 1]
  by (simp add: trim_def js_def is_white_space_def)

text \<open>
  A save with the blank text \<^verbatim>\<open>"  "\<close> leaves the application in edit mode.
\<close>

theorem blank_save_stays_in_edit_mode:
  "editId (handleEditSave
     \<lparr>todos = [\<lparr>id_todo = 1, title = js ''a'', completed = False\<rparr>],
      input = [], editId = Some 1, editValue = js ''  ''\<rparr>) \<noteq> None"
  by (simp add: handleEditSave_def trim_def js_def is_white_space_def)

subsection \<open>Length of titles\<close>





subsection \<open>Blank text and unknown ids\<close>

text \<open>
  C8. A submission whose trimmed text is empty changes nothing. \<^verbatim>\<open>handleAddTodo\<close> and
  \<^verbatim>\<open>handleEditSave\<close> return the state they were given, so \<^verbatim>\<open>add\<close> and \<^verbatim>\<open>edit\<close>, with any
  id, leave the store as it was. The empty text and the text of three spaces are of this
  kind.
\<close>

theorem blank_text_changes_nothing:
  "(trim (input st) = [] \<longrightarrow> handleAddTodo now st = st) \<and>
   (trim (editValue st) = [] \<longrightarrow> handleEditSave st = st) \<and>
   (trim raw = [] \<longrightarrow> todos (add now raw st) = todos st \<and> todos (edit i raw st) = todos st) \<and>
   trim [] = [] \<and> trim (js ''   '') = []"
  by (simp add: handleAddTodo_def handleEditSave_def todos_add todos_edit Let_def trim_def
      js_def is_white_space_def)

theorem blank_text_changes_nothing_witness:
  "handleAddTodo 7
     \<lparr>todos = [\<lparr>id_todo = 1, title = js ''a'', completed = False\<rparr>],
      input = js ''   '', editId = Some 1, editValue = []\<rparr> =
     \<lparr>todos = [\<lparr>id_todo = 1, title = js ''a'', completed = False\<rparr>],
      input = js ''   '', editId = Some 1, editValue = []\<rparr> \<and>
   handleEditSave
     \<lparr>todos = [\<lparr>id_todo = 1, title = js ''a'', completed = False\<rparr>],
      input = js ''   '', editId = Some 1, editValue = []\<rparr> =
     \<lparr>todos = [\<lparr>id_todo = 1, title = js ''a'', completed = False\<rparr>],
      input = js ''   '', editId = Some 1, editValue = []\<rparr> \<and>
   todos (add 7 (js ''   '')
     \<lparr>todos = [\<lparr>id_todo = 1, title = js ''a'', completed = False\<rparr>],
      input = js ''   '', editId = Some 1, editValue = []\<rparr>) =
     [\<lparr>id_todo = 1, title = js ''a'', completed = False\<rparr>] \<and>
   todos (edit 1 (js ''   '')
     \<lparr>todos = [\<lparr>id_todo = 1, title = js ''a'', completed = False\<rparr>],
      input = js ''   '', editId = Some 1, editValue = []\<rparr>) =
     [\<lparr>id_todo = 1, title = js ''a'', completed = False\<rparr>]"
  using blank_text_changes_nothing
    [of "\<lparr>todos = [\<lparr>id_todo = 1, title = js ''a'', completed = False\<rparr>],
          input = js ''   '', editId = Some 1, editValue = []\<rparr>" 7 "js ''   ''" 1]
  by (simp add: trim_def js_def is_white_space_def)

text \<open>
  C9. When no stored todo has the id \<open>i\<close>, \<^verbatim>\<open>toggleTodo\<close> and \<^verbatim>\<open>deleteTodo\<close> called with
  \<open>i\<close> return the state they were given, and \<^verbatim>\<open>edit\<close> with \<open>i\<close> and any text leaves the
  store as it was. The handlers are total functions: the source has no \<^verbatim>\<open>throw\<close>, and
  \<^verbatim>\<open>map\<close>, \<^verbatim>\<open>filter\<close> and \<^verbatim>\<open>trim\<close> are applied to an array and to strings only.
\<close>

theorem unknown_id_changes_nothing:
  assumes "\<forall>td \<in> set (todos st). id_todo td \<noteq> i"
  shows "toggleTodo i st = st \<and> deleteTodo i st = st \<and> todos (edit i raw st) = todos st"
proof (intro conjI)
  show "toggleTodo i st = st"
    using assms by (simp add: toggleTodo_def map_other_ids)
  show "deleteTodo i st = st"
    using assms by (simp add: deleteTodo_def filter_other_ids)
  show "todos (edit i raw st) = todos st"
    using assms by (simp add: todos_edit map_other_ids)
qed

theorem unknown_id_changes_nothing_witness:
  "toggleTodo 4
     \<lparr>todos = [\<lparr>id_todo = 1, title = js ''a'', completed = False\<rparr>,
               \<lparr>id_todo = 2, title = js ''b'', completed = True\<rparr>],
      input = [], editId = None, editValue = []\<rparr> =
     \<lparr>todos = [\<lparr>id_todo = 1, title = js ''a'', completed = False\<rparr>,
               \<lparr>id_todo = 2, title = js ''b'', completed = True\<rparr>],
      input = [], editId = None, editValue = []\<rparr> \<and>
   deleteTodo 4
     \<lparr>todos = [\<lparr>id_todo = 1, title = js ''a'', completed = False\<rparr>,
               \<lparr>id_todo = 2, title = js ''b'', completed = True\<rparr>],
      input = [], editId = None, editValue = []\<rparr> =
     \<lparr>todos = [\<lparr>id_todo = 1, title = js ''a'', completed = False\<rparr>,
               \<lparr>id_todo = 2, title = js ''b'', completed = True\<rparr>],
      input = [], editId = None, editValue = []\<rparr> \<and>
   todos (edit 4 (js ''New'')
     \<lparr>todos = [\<lparr>id_todo = 1, title = js ''a'', completed = False\<rparr>,
               \<lparr>id_todo = 2, title = js ''b'', completed = True\<rparr>],
      input = [], editId = None, editValue = []\<rparr>) =
     [\<lparr>id_todo = 1, title = js ''a'', completed = False\<rparr>,
      \<lparr>id_todo = 2, title = js ''b'', completed = True\<rparr>]"
  using unknown_id_changes_nothing
    [of "\<lparr>todos = [\<lparr>id_todo = 1, title = js ''a'', completed = False\<rparr>,
                   \<lparr>id_todo = 2, title = js ''b'', completed = True\<rparr>],
          input = [], editId = None, editValue = []\<rparr>" 4 "js ''New''"]
  by simp

subsection \<open>Stores in which an id occurs more than once\<close>

text \<open>
  C10. \<^verbatim>\<open>deleteTodo\<close> removes every record with the given id: none is left, and the store
  shrinks by the number of records that had it. \<^verbatim>\<open>toggleTodo\<close> keeps the length of the
  store and negates the \<^verbatim>\<open>completed\<close> flag of every record with the given id. So in a
  store where two or more records share an id, one call acts on all of them.
\<close>

theorem delete_and_toggle_reach_every_match:
  "(\<forall>td \<in> set (todos (deleteTodo i st)). id_todo td \<noteq> i) \<and>
   length (todos (deleteTodo i st)) + length (filter (\<lambda>td. id_todo td = i) (todos st)) =
     length (todos st) \<and>
   length (todos (toggleTodo i st)) = length (todos st) \<and>
   (\<forall>k < length (todos st). id_todo (todos st ! k) = i \<longrightarrow>
      completed (todos (toggleTodo i st) ! k) = (\<not> completed (todos st ! k)))"
proof (intro conjI)
  show "\<forall>td \<in> set (todos (deleteTodo i st)). id_todo td \<noteq> i"
    by (simp add: deleteTodo_def)
  have "length (filter (\<lambda>td. id_todo td \<noteq> i) (todos st)) +
        length (filter (\<lambda>td. \<not> id_todo td \<noteq> i) (todos st)) = length (todos st)"
    by (rule sum_length_filter_compl)
  then show "length (todos (deleteTodo i st)) +
      length (filter (\<lambda>td. id_todo td = i) (todos st)) = length (todos st)"
    by (simp add: deleteTodo_def)
  show "length (todos (toggleTodo i st)) = length (todos st)"
    by (simp add: toggleTodo_def)
  show "\<forall>k < length (todos st). id_todo (todos st ! k) = i \<longrightarrow>
      completed (todos (toggleTodo i st) ! k) = (\<not> completed (todos st ! k))"
    by (simp add: toggleTodo_def)
qed

theorem delete_and_toggle_reach_every_match_witness:
  "todos (deleteTodo 1
     \<lparr>todos = [\<lparr>id_todo = 1, title = js ''a'', completed = False\<rparr>,
               \<lparr>id_todo = 2, title = js ''b'', completed = False\<rparr>,
               \<lparr>id_todo = 1, title = js ''c'', completed = True\<rparr>],
      input = [], editId = None, editValue = []\<rparr>) =
     [\<lparr>id_todo = 2, title = js ''b'', completed = False\<rparr>] \<and>
   map completed (todos (toggleTodo 1
     \<lparr>todos = [\<lparr>id_todo = 1, title = js ''a'', completed = False\<rparr>,
               \<lparr>id_todo = 2, title = js ''b'', completed = False\<rparr>,
               \<lparr>id_todo = 1, title = js ''c'', completed = True\<rparr>],
      input = [], editId = None, editValue = []\<rparr>)) = [True, False, False]"
  using delete_and_toggle_reach_every_match
    [of 1 "\<lparr>todos = [\<lparr>id_todo = 1, title = js ''a'', completed = False\<rparr>,
                     \<lparr>id_todo = 2, title = js ''b'', completed = False\<rparr>,
                     \<lparr>id_todo = 1, title = js ''c'', completed = True\<rparr>],
            input = [], editId = None, editValue = []\<rparr>"]
  by (simp add: deleteTodo_def toggleTodo_def)

end
